theory Spec2Isabelle
  imports Complex_Main "HOL-Library.Word"
begin

section \<open>Data model\<close>

text \<open>
  The selective clearing service of the layered 2D cost grid
  (\<^verbatim>\<open>nav2_costmap_2d/src/clear_costmap_service.cpp\<close>).

  The C++ \<^verbatim>\<open>double\<close> is modelled by \<^typ>\<open>real\<close>: rounding, infinities and NaN are left
  out. A cost cell is an \<^verbatim>\<open>unsigned char\<close>, an 8-bit word. The locks of the source are not
  modelled: every operation runs sequentially on the calling thread.
\<close>

type_synonym point = "real \<times> real"

type_synonym cost = "8 word"

text \<open>The robot pose as the service reads it: position and heading.\<close>

record pose =
  position_x :: real
  position_y :: real
  yaw :: real

text \<open>
  Modelled from the spec: the grid (\<^verbatim>\<open>Costmap2D\<close>, whose declaration is not part of the
  source file): a cell array with a fixed default value, an origin, a resolution and its
  dimensions in cells and in meters. The cell \<open>(mx, my)\<close> is stored at index
  \<open>my * size_x + mx\<close>.
\<close>

record costmap2d =
  size_x :: nat
  size_y :: nat
  resolution :: real
  origin_x :: real
  origin_y :: real
  size_in_meters_x :: real
  size_in_meters_y :: real
  costmap :: "cost list"
  default_value :: cost

text \<open>
  Modelled from the spec: a layer (\<^verbatim>\<open>CostmapLayer\<close>) is a named grid with dirty bounds,
  a rectangle \<open>(minX, minY, maxX, maxY)\<close>.
\<close>

record layer = costmap2d +
  name :: string
  extra_min_x :: real
  extra_min_y :: real
  extra_max_x :: real
  extra_max_y :: real

text \<open>
  The pose source is outside the program: each call of \<^verbatim>\<open>getRobotPose\<close> may succeed or
  fail on its own. \<open>pose_src k\<close> is the answer to the \<open>k\<close>-th call, \<open>pose_calls\<close> counts
  the calls made so far.
\<close>

record pose_source =
  pose_src :: "nat \<Rightarrow> pose option"
  pose_calls :: nat

text \<open>
  \<^verbatim>\<open>Costmap2DROS\<close> as the service sees it: the master grid (\<^verbatim>\<open>getCostmap()\<close>), the
  ordered layer stack (\<^verbatim>\<open>getLayeredCostmap()->getPlugins()\<close>), the pose source, and the
  error messages written to the node's logger.
\<close>

record costmap2d_ros =
  master :: costmap2d
  plugins :: "layer list"
  tf :: pose_source
  logged :: "string list"

text \<open>The members of \<^verbatim>\<open>ClearCostmapService\<close> that the operations read.\<close>

record clear_costmap_service =
  reset_value :: cost
  clearable_layers :: "string list"

section \<open>Primitives of the grid engine\<close>

text \<open>
  Modelled from the spec: \<^verbatim>\<open>Costmap2DROS::getRobotPose\<close>, \<open>getPose() -> Pose | failure\<close>.
\<close>

definition getRobotPose :: "pose_source \<Rightarrow> pose option \<times> pose_source" where
  "getRobotPose r = (pose_src r (pose_calls r), r\<lparr>pose_calls := Suc (pose_calls r)\<rparr>)"

text \<open>
  Modelled from the spec: \<^verbatim>\<open>rotatePoint\<close>, the standard 2D rotation of a corner about the
  pivot \<open>(pose_x, pose_y)\<close> by the angle \<open>yaw\<close>, counter-clockwise positive.
\<close>

definition rotatePoint :: "real \<Rightarrow> real \<Rightarrow> real \<Rightarrow> point \<Rightarrow> point" where
  "rotatePoint pose_x pose_y yw corner =
     (pose_x + (fst corner - pose_x) * cos yw - (snd corner - pose_y) * sin yw,
      pose_y + (fst corner - pose_x) * sin yw + (snd corner - pose_y) * cos yw)"

text \<open>
  Modelled from the spec: \<^verbatim>\<open>Costmap2D::worldToMapEnforceBounds\<close>, which converts using
  origin and resolution and, if the point falls outside \<open>[origin, origin + size)\<close>, clamps to
  the nearest boundary cell rather than failing.
\<close>

definition worldToMapEnforceBounds1 :: "real \<Rightarrow> real \<Rightarrow> real \<Rightarrow> nat \<Rightarrow> real \<Rightarrow> int" where
  "worldToMapEnforceBounds1 origin res size_m cells w =
     (if w < origin then 0
      else if origin + size_m \<le> w then int cells - 1
      else \<lfloor>(w - origin) / res\<rfloor>)"

definition worldToMapEnforceBounds :: "'a costmap2d_scheme \<Rightarrow> real \<Rightarrow> real \<Rightarrow> int \<times> int" where
  "worldToMapEnforceBounds g wx wy =
     (worldToMapEnforceBounds1 (origin_x g) (resolution g) (size_in_meters_x g) (size_x g) wx,
      worldToMapEnforceBounds1 (origin_y g) (resolution g) (size_in_meters_y g) (size_y g) wy)"

text \<open>
  Modelled from the spec: \<^verbatim>\<open>CostmapLayer::clearArea\<close>, the area-clear primitive taking the
  polygon's grid-space corners: the cells of the polygon are preserved and only its
  complement is reset to the layer's default value. Which cells a polygon covers is the
  engine's rasterisation, which the spec leaves open: it is the parameter \<open>covers\<close>.
\<close>

definition clearArea :: "(point list \<Rightarrow> nat \<Rightarrow> nat \<Rightarrow> bool) \<Rightarrow> point list \<Rightarrow> layer \<Rightarrow> layer" where
  "clearArea covers poly l =
     l\<lparr>costmap :=
         map (\<lambda>i. if covers poly (i mod size_x l) (i div size_x l) then costmap l ! i
                   else default_value l)
           [0..<length (costmap l)]\<rparr>"

text \<open>
  Modelled from the spec: \<^verbatim>\<open>CostmapLayer::addExtraBounds\<close>, which extends the layer's
  tracked dirty rectangle to the union of its current value and the given rectangle.
\<close>

definition addExtraBounds :: "real \<Rightarrow> real \<Rightarrow> real \<Rightarrow> real \<Rightarrow> layer \<Rightarrow> layer" where
  "addExtraBounds mx0 my0 mx1 my1 l =
     l\<lparr>extra_min_x := min mx0 (extra_min_x l),
       extra_min_y := min my0 (extra_min_y l),
       extra_max_x := max mx1 (extra_max_x l),
       extra_max_y := max my1 (extra_max_y l)\<rparr>"

text \<open>
  Modelled from the spec: \<^verbatim>\<open>Costmap2D::setConvexPolygonCost\<close>, the primitive that sets
  all cells enclosed by a polygon, given in world coordinates, to a given value. Which
  cells of a grid a polygon encloses is again the engine's rasterisation, the parameter
  \<open>encloses\<close>.
\<close>

definition setConvexPolygonCost ::
  "(costmap2d \<Rightarrow> point list \<Rightarrow> nat \<Rightarrow> nat \<Rightarrow> bool) \<Rightarrow> point list \<Rightarrow> cost \<Rightarrow> costmap2d \<Rightarrow> costmap2d" where
  "setConvexPolygonCost encloses poly cost_value g =
     g\<lparr>costmap :=
         map (\<lambda>i. if encloses g poly (i mod size_x g) (i div size_x g) then cost_value
                   else costmap g ! i)
           [0..<length (costmap g)]\<rparr>"

text \<open>
  Modelled from the spec: \<^verbatim>\<open>Costmap2DROS::resetLayers\<close>, the full layer-stack reset: every
  cell in every layer is set to that layer's own default value, regardless of prior
  content.
\<close>

definition reset :: "layer \<Rightarrow> layer" where
  "reset l = l\<lparr>costmap := map (\<lambda>_. default_value l) (costmap l)\<rparr>"

definition resetLayers :: "costmap2d_ros \<Rightarrow> costmap2d_ros" where
  "resetLayers s = s\<lparr>plugins := map reset (plugins s)\<rparr>"

section \<open>The clearing service\<close>

text \<open>The constructor reads the reset value from the master grid and the allow-list
  from the parameter \<^verbatim>\<open>clearable_layers\<close>.\<close>

definition ClearCostmapService :: "string list \<Rightarrow> costmap2d_ros \<Rightarrow> clear_costmap_service" where
  "ClearCostmapService clearable_param s =
     \<lparr>reset_value = default_value (master s), clearable_layers = clearable_param\<rparr>"

definition getPosition :: "pose_source \<Rightarrow> (real \<times> real) option \<times> pose_source" where
  "getPosition r =
     (case getRobotPose r of
        (None, r') \<Rightarrow> (None, r')
      | (Some p, r') \<Rightarrow> (Some (position_x p, position_y p), r'))"

text \<open>\<^verbatim>\<open>std::string::rfind\<close>: the index of the last occurrence, \<open>None\<close> for \<^verbatim>\<open>npos\<close>.\<close>

fun rfind :: "char \<Rightarrow> string \<Rightarrow> nat option" where
  "rfind c [] = None"
| "rfind c (x # xs) =
     (case rfind c xs of
        Some i \<Rightarrow> Some (Suc i)
      | None \<Rightarrow> if x = c then Some 0 else None)"

definition getLayerName :: "layer \<Rightarrow> string" where
  "getLayerName l =
     (case rfind CHR ''/'' (name l) of
        Some slash \<Rightarrow> drop (slash + 1) (name l)
      | None \<Rightarrow> name l)"

definition isClearable :: "clear_costmap_service \<Rightarrow> string \<Rightarrow> bool" where
  "isClearable svc layer_name = (count_list (clearable_layers svc) layer_name \<noteq> 0)"

definition pose_error :: string where
  "pose_error = ''Cannot clear map because robot pose cannot be retrieved.''"

text \<open>The four corners of the preserved region, before rotation.\<close>

definition corners :: "real \<Rightarrow> real \<Rightarrow> real \<Rightarrow> point list" where
  "corners pose_x pose_y reset_distance =
     (let half_dist = reset_distance / 2 in
      [(pose_x - half_dist, pose_y - half_dist),
       (pose_x + 0.259, pose_y - half_dist),
       (pose_x + 0.259, pose_y + half_dist),
       (pose_x - half_dist, pose_y + half_dist)])"

definition map_corners :: "'a costmap2d_scheme \<Rightarrow> point list \<Rightarrow> point list" where
  "map_corners l rotated_corners =
     map (\<lambda>corner. case worldToMapEnforceBounds l (fst corner) (snd corner) of
                      (map_x, map_y) \<Rightarrow> (real_of_int map_x, real_of_int map_y))
       rotated_corners"

definition clearLayerExceptRegion ::
  "(point list \<Rightarrow> nat \<Rightarrow> nat \<Rightarrow> bool) \<Rightarrow> layer \<Rightarrow> real \<Rightarrow> real \<Rightarrow> real \<Rightarrow> pose_source
     \<Rightarrow> layer \<times> pose_source" where
  "clearLayerExceptRegion covers l pose_x pose_y reset_distance r =
     (case getRobotPose r of
        (None, r') \<Rightarrow> (l, r')
      | (Some p, r') \<Rightarrow>
          (let rotated_corners =
                 map (rotatePoint pose_x pose_y (yaw p)) (corners pose_x pose_y reset_distance);
               l' = clearArea covers (map_corners l rotated_corners) l;
               ox = origin_x l'; oy = origin_y l';
               width = size_in_meters_x l'; height = size_in_meters_y l'
           in (addExtraBounds ox oy (ox + width) (oy + height) l', r')))"

text \<open>The loop of \<^verbatim>\<open>clearExceptRegion\<close> over the layer stack.\<close>

fun clearExceptRegion_layers ::
  "(point list \<Rightarrow> nat \<Rightarrow> nat \<Rightarrow> bool) \<Rightarrow> clear_costmap_service \<Rightarrow> real \<Rightarrow> real \<Rightarrow> real
     \<Rightarrow> layer list \<Rightarrow> pose_source \<Rightarrow> layer list \<times> pose_source" where
  "clearExceptRegion_layers covers svc x y reset_distance [] r = ([], r)"
| "clearExceptRegion_layers covers svc x y reset_distance (l # ls) r =
     (if isClearable svc (getLayerName l) then
        (case clearLayerExceptRegion covers l x y reset_distance r of
           (l', r') \<Rightarrow>
             (case clearExceptRegion_layers covers svc x y reset_distance ls r' of
                (ls', r'') \<Rightarrow> (l' # ls', r'')))
      else
        (case clearExceptRegion_layers covers svc x y reset_distance ls r of
           (ls', r') \<Rightarrow> (l # ls', r')))"

definition clearExceptRegion ::
  "(point list \<Rightarrow> nat \<Rightarrow> nat \<Rightarrow> bool) \<Rightarrow> clear_costmap_service \<Rightarrow> real \<Rightarrow> costmap2d_ros
     \<Rightarrow> costmap2d_ros" where
  "clearExceptRegion covers svc reset_distance s =
     (case getPosition (tf s) of
        (None, r') \<Rightarrow> s\<lparr>tf := r', logged := logged s @ [pose_error]\<rparr>
      | (Some (x, y), r') \<Rightarrow>
          (case clearExceptRegion_layers covers svc x y reset_distance (plugins s) r' of
             (ls', r'') \<Rightarrow> s\<lparr>plugins := ls', tf := r''\<rparr>))"

definition clear_poly :: "real \<Rightarrow> real \<Rightarrow> real \<Rightarrow> real \<Rightarrow> point list" where
  "clear_poly pose_x pose_y window_size_x window_size_y =
     [(pose_x - window_size_x / 2, pose_y - window_size_y / 2),
      (pose_x + window_size_x / 2, pose_y - window_size_y / 2),
      (pose_x + window_size_x / 2, pose_y + window_size_y / 2),
      (pose_x - window_size_x / 2, pose_y + window_size_y / 2)]"

definition clearAroundRobot ::
  "(costmap2d \<Rightarrow> point list \<Rightarrow> nat \<Rightarrow> nat \<Rightarrow> bool) \<Rightarrow> clear_costmap_service \<Rightarrow> real \<Rightarrow> real
     \<Rightarrow> costmap2d_ros \<Rightarrow> costmap2d_ros" where
  "clearAroundRobot encloses svc window_size_x window_size_y s =
     (case getPosition (tf s) of
        (None, r') \<Rightarrow> s\<lparr>tf := r', logged := logged s @ [pose_error]\<rparr>
      | (Some (pose_x, pose_y), r') \<Rightarrow>
          s\<lparr>master :=
              setConvexPolygonCost encloses
                (clear_poly pose_x pose_y window_size_x window_size_y) (reset_value svc) (master s),
            tf := r'\<rparr>)"

definition clearEntirely :: "costmap2d_ros \<Rightarrow> costmap2d_ros" where
  "clearEntirely s = resetLayers s"

definition clearExceptRegionCallback ::
  "(point list \<Rightarrow> nat \<Rightarrow> nat \<Rightarrow> bool) \<Rightarrow> clear_costmap_service \<Rightarrow> real \<Rightarrow> costmap2d_ros
     \<Rightarrow> costmap2d_ros" where
  "clearExceptRegionCallback covers svc reset_distance s =
     clearExceptRegion covers svc reset_distance s"

definition clearAroundRobotCallback ::
  "(costmap2d \<Rightarrow> point list \<Rightarrow> nat \<Rightarrow> nat \<Rightarrow> bool) \<Rightarrow> clear_costmap_service \<Rightarrow> real \<Rightarrow> real
     \<Rightarrow> costmap2d_ros \<Rightarrow> costmap2d_ros" where
  "clearAroundRobotCallback encloses svc window_size_x window_size_y s =
     (if window_size_x = 0 \<or> window_size_y = 0 then clearEntirely s
      else clearAroundRobot encloses svc window_size_x window_size_y s)"

definition clearEntireCallback :: "costmap2d_ros \<Rightarrow> costmap2d_ros" where
  "clearEntireCallback s = clearEntirely s"

section \<open>The spec's layer filter\<close>

text \<open>
  The layer filter in the spec's words: the trailing name segment is what follows the last
  \<open>/\<close> of a name; the filter returns, in stack order, the layers whose trailing segment is a
  member of the configured set; the selected layers are then visited one after the other.
\<close>

definition trailing_segment :: "string \<Rightarrow> string" where
  "trailing_segment nm = rev (takeWhile (\<lambda>c. c \<noteq> CHR ''/'') (rev nm))"

definition LayerFilter :: "string list \<Rightarrow> layer list \<Rightarrow> layer list" where
  "LayerFilter clearable ls = filter (\<lambda>l. trailing_segment (name l) \<in> set clearable) ls"

fun visit_in_order ::
  "(point list \<Rightarrow> nat \<Rightarrow> nat \<Rightarrow> bool) \<Rightarrow> real \<Rightarrow> real \<Rightarrow> real \<Rightarrow> layer list \<Rightarrow> pose_source
     \<Rightarrow> layer list \<times> pose_source" where
  "visit_in_order covers x y reset_distance [] r = ([], r)"
| "visit_in_order covers x y reset_distance (l # ls) r =
     (case clearLayerExceptRegion covers l x y reset_distance r of
        (l', r') \<Rightarrow>
          (case visit_in_order covers x y reset_distance ls r' of
             (ls', r'') \<Rightarrow> (l' # ls', r'')))"

section \<open>Concrete grids\<close>

text \<open>
  Two sample rasterisations, to run the operations on concrete grids: a cell is enclosed by
  a world-frame polygon when its centre lies in the polygon's bounding box, and covered by
  a grid-frame polygon when its index pair does. Both are exact for axis-aligned
  rectangles.
\<close>

definition sample_encloses :: "costmap2d \<Rightarrow> point list \<Rightarrow> nat \<Rightarrow> nat \<Rightarrow> bool" where
  "sample_encloses g poly mx my =
     (let wx = origin_x g + (real mx + 0.5) * resolution g;
          wy = origin_y g + (real my + 0.5) * resolution g
      in list_ex (\<lambda>p. fst p \<le> wx) poly \<and> list_ex (\<lambda>p. wx \<le> fst p) poly \<and>
         list_ex (\<lambda>p. snd p \<le> wy) poly \<and> list_ex (\<lambda>p. wy \<le> snd p) poly)"

definition sample_covers :: "point list \<Rightarrow> nat \<Rightarrow> nat \<Rightarrow> bool" where
  "sample_covers poly mx my =
     (list_ex (\<lambda>p. fst p \<le> real mx) poly \<and> list_ex (\<lambda>p. real mx \<le> fst p) poly \<and>
      list_ex (\<lambda>p. snd p \<le> real my) poly \<and> list_ex (\<lambda>p. real my \<le> snd p) poly)"

text \<open>A 2 x 2 grid of one-meter cells at the origin, and a layer stack of three such
  grids, two of them on the allow-list.\<close>

definition example_grid :: costmap2d where
  "example_grid =
     \<lparr>size_x = 2, size_y = 2, resolution = 1, origin_x = 0, origin_y = 0,
      size_in_meters_x = 2, size_in_meters_y = 2, costmap = [1, 2, 3, 4], default_value = 0\<rparr>"

definition example_layer :: "string \<Rightarrow> real \<Rightarrow> real \<Rightarrow> layer" where
  "example_layer nm lo hi =
     \<lparr>size_x = 2, size_y = 2, resolution = 1, origin_x = 0, origin_y = 0,
      size_in_meters_x = 2, size_in_meters_y = 2, costmap = [1, 2, 3, 4], default_value = 0,
      name = nm, extra_min_x = lo, extra_min_y = lo, extra_max_x = hi, extra_max_y = hi\<rparr>"

definition example_pose :: pose where
  "example_pose = \<lparr>position_x = 1 / 2, position_y = 1 / 2, yaw = 0\<rparr>"

definition example_ros :: "(nat \<Rightarrow> pose option) \<Rightarrow> costmap2d_ros" where
  "example_ros src =
     \<lparr>master = example_grid,
      plugins = [example_layer ''local_costmap/obstacle_layer'' 1 1,
                 example_layer ''local_costmap/static_layer'' 1 1,
                 example_layer ''voxel_layer'' 1 1],
      tf = \<lparr>pose_src = src, pose_calls = 0\<rparr>,
      logged = []\<rparr>"

definition example_service :: clear_costmap_service where
  "example_service =
     \<lparr>reset_value = 0, clearable_layers = [''obstacle_layer'', ''voxel_layer'']\<rparr>"

text \<open>Pose sources: one that always answers, one that never does, and one that fails
  at a single call.\<close>

definition pose_always :: "nat \<Rightarrow> pose option" where
  "pose_always k = Some example_pose"

definition pose_never :: "nat \<Rightarrow> pose option" where
  "pose_never k = None"

definition pose_lost_at :: "nat \<Rightarrow> nat \<Rightarrow> pose option" where
  "pose_lost_at n k = (if k = n then None else Some example_pose)"

definition example_tf :: pose_source where
  "example_tf = \<lparr>pose_src = pose_always, pose_calls = 0\<rparr>"

text \<open>The pose at the origin with yaw zero, and a pose source that always answers it.\<close>

definition origin_pose :: pose where
  "origin_pose = \<lparr>position_x = 0, position_y = 0, yaw = 0\<rparr>"

definition pose_at_origin :: "nat \<Rightarrow> pose option" where
  "pose_at_origin k = Some origin_pose"

section \<open>Auxiliary facts\<close>

lemmas ex_defs = example_ros_def example_layer_def example_service_def example_pose_def example_grid_def
  sample_covers_def sample_encloses_def pose_always_def pose_never_def pose_lost_at_def example_tf_def
lemmas op_defs = clearExceptRegion_def getPosition_def getRobotPose_def isClearable_def getLayerName_def
  clearLayerExceptRegion_def corners_def rotatePoint_def map_corners_def worldToMapEnforceBounds_def
  worldToMapEnforceBounds1_def clearArea_def addExtraBounds_def

lemma rfind_None: "rfind c xs = None \<longleftrightarrow> c \<notin> set xs"
  by (induction xs) (auto split: option.splits)

lemma rfind_Some:
  "rfind c xs = Some i \<Longrightarrow> i < length xs \<and> xs ! i = c \<and> c \<notin> set (drop (Suc i) xs)"
proof (induction xs arbitrary: i)
  case Nil
  then show ?case by simp
next
  case (Cons x xs)
  then show ?case
    by (auto split: option.splits if_splits simp: rfind_None)
qed

lemma rfind_split:
  assumes "rfind c xs = Some i"
  shows "xs = take i xs @ c # drop (Suc i) xs" and "c \<notin> set (drop (Suc i) xs)"
proof -
  from rfind_Some [OF assms] have lt: "i < length xs" and at: "xs ! i = c"
    and rest: "c \<notin> set (drop (Suc i) xs)"
    by simp_all
  show "xs = take i xs @ c # drop (Suc i) xs"
    using id_take_nth_drop [OF lt] at by simp
  show "c \<notin> set (drop (Suc i) xs)" by (rule rest)
qed

lemma trailing_segment_no_slash:
  "CHR ''/'' \<notin> set nm \<Longrightarrow> trailing_segment nm = nm"
proof -
  assume "CHR ''/'' \<notin> set nm"
  then have "\<forall>c\<in>set (rev nm). c \<noteq> CHR ''/''" by auto
  then have h: "takeWhile (\<lambda>c. c \<noteq> CHR ''/'') (rev nm) = rev nm"
    by (simp only: takeWhile_eq_all_conv)
  show ?thesis
    by (simp only: trailing_segment_def h rev_rev_ident)
qed

lemma trailing_segment_slash:
  "CHR ''/'' \<notin> set rest \<Longrightarrow> trailing_segment (pre @ CHR ''/'' # rest) = rest"
proof -
  assume a: "CHR ''/'' \<notin> set rest"
  have "takeWhile (\<lambda>c. c \<noteq> CHR ''/'') (rev rest @ CHR ''/'' # rev pre) = rev rest"
    using a by (auto simp: takeWhile_tail)
  then show ?thesis
    by (simp add: trailing_segment_def)
qed

lemma getLayerName_trailing: "getLayerName l = trailing_segment (name l)"
proof (cases "rfind CHR ''/'' (name l)")
  case None
  then have "CHR ''/'' \<notin> set (name l)"
    by (simp add: rfind_None)
  with None show ?thesis
    by (simp add: getLayerName_def trailing_segment_no_slash)
next
  case (Some slash)
  from rfind_split [OF Some]
  have "trailing_segment (name l) = drop (Suc slash) (name l)"
    using trailing_segment_slash by metis
  with Some show ?thesis
    by (simp add: getLayerName_def)
qed

lemma isClearable_LayerFilter:
  "isClearable svc (getLayerName l) \<longleftrightarrow> trailing_segment (name l) \<in> set (clearable_layers svc)"
  by (simp add: isClearable_def getLayerName_trailing count_list_0_iff)

lemma clearLayerExceptRegion_name:
  "clearLayerExceptRegion covers l x y d r = (l', r') \<Longrightarrow> name l' = name l"
  by (auto simp: clearLayerExceptRegion_def getRobotPose_def clearArea_def addExtraBounds_def Let_def
      split: option.splits)

lemma clearLayerExceptRegion_None:
  "pose_src r (pose_calls r) = None \<Longrightarrow>
   clearLayerExceptRegion covers l x y d r = (l, r\<lparr>pose_calls := Suc (pose_calls r)\<rparr>)"
  by (simp add: clearLayerExceptRegion_def getRobotPose_def)

lemma layers_length:
  "clearExceptRegion_layers covers svc x y d ls r = (ls', r') \<Longrightarrow> length ls' = length ls"
  by (induction ls arbitrary: r ls' r') (auto split: prod.splits if_splits)

lemma layers_not_clearable:
  "clearExceptRegion_layers covers svc x y d ls r = (ls', r') \<Longrightarrow>
   i < length ls \<Longrightarrow> \<not> isClearable svc (getLayerName (ls ! i)) \<Longrightarrow> ls' ! i = ls ! i"
proof (induction ls arbitrary: r ls' r' i)
  case Nil
  then show ?case by simp
next
  case (Cons l ls)
  show ?case
  proof (cases i)
    case 0
    with Cons.prems show ?thesis by (auto split: prod.splits if_splits)
  next
    case (Suc j)
    with Cons.prems have j: "j < length ls" "\<not> isClearable svc (getLayerName (ls ! j))"
      by simp_all
    from Cons.prems(1) Cons.IH [OF _ j] Suc show ?thesis
      by (auto split: prod.splits if_splits)
  qed
qed

lemma layers_append:
  "clearExceptRegion_layers covers svc x y d (xs @ ys) r =
     (case clearExceptRegion_layers covers svc x y d xs r of
        (xs', r') \<Rightarrow>
          (case clearExceptRegion_layers covers svc x y d ys r' of
             (ys', r'') \<Rightarrow> (xs' @ ys', r'')))"
  by (induction xs arbitrary: r) (simp_all split: prod.splits)

lemma layers_names:
  "clearExceptRegion_layers covers svc x y d ls r = (ls', r') \<Longrightarrow> map name ls' = map name ls"
  by (induction ls arbitrary: r ls' r')
    (auto split: prod.splits if_splits dest: clearLayerExceptRegion_name)

text \<open>The loop of the source does what the spec's filter followed by an in-order visit does.\<close>

lemma layers_refine:
  assumes "clearExceptRegion_layers covers svc x y d ls r = (ls', r')"
  shows "visit_in_order covers x y d (LayerFilter (clearable_layers svc) ls) r =
           (LayerFilter (clearable_layers svc) ls', r')"
    and "filter (\<lambda>l. trailing_segment (name l) \<notin> set (clearable_layers svc)) ls' =
         filter (\<lambda>l. trailing_segment (name l) \<notin> set (clearable_layers svc)) ls"
  using assms
proof (induction ls arbitrary: r ls' r')
  case Nil
  {
    case 1
    then show ?case by (simp add: LayerFilter_def)
  next
    case 2
    then show ?case by simp
  }
next
  case (Cons l ls)
  {
    case 1
    then show ?case
      using Cons.IH(1)
      by (auto simp: LayerFilter_def isClearable_LayerFilter split: prod.splits if_splits
          dest: clearLayerExceptRegion_name)
  next
    case 2
    then show ?case
      using Cons.IH(2)
      by (auto simp: isClearable_LayerFilter split: prod.splits if_splits
          dest: clearLayerExceptRegion_name)
  }
qed

section \<open>Properties of the clearing service\<close>

subsection \<open>Layers off the allow-list\<close>

text \<open>
  Claim C1 as stated fails for the clear around the robot: it visits no layer, allow-listed
  or not, and mutates the master grid instead.
\<close>

theorem clearAroundRobot_master_counterexample:
  "costmap (master (example_ros pose_always)) = [1, 2, 3, 4] \<and>
   costmap (master (clearAroundRobot sample_encloses example_service 1 1 (example_ros pose_always))) =
     [0, 2, 3, 4] \<and>
   master (clearAroundRobot sample_encloses example_service 1 1 (example_ros pose_always)) \<noteq>
     master (example_ros pose_always) \<and>
   plugins (clearAroundRobot sample_encloses example_service 1 1 (example_ros pose_always)) =
     plugins (example_ros pose_always)"
  by (simp add: ex_defs op_defs clearAroundRobot_def setConvexPolygonCost_def clear_poly_def upt_rec)

text \<open>
  Claim C1, amended. The except-region clear leaves every layer whose trailing name segment
  is not on the allow-list unchanged (cells and dirty bounds alike), keeps the stack's
  length and leaves the master grid alone. The clear around the robot iterates over no
  layers: it leaves the whole layer stack unchanged and works on the master grid only.
\<close>

theorem non_clearable_layers_unchanged:
  "(i < length (plugins s) \<and> \<not> isClearable svc (getLayerName (plugins s ! i)) \<longrightarrow>
      plugins (clearExceptRegion covers svc d s) ! i = plugins s ! i) \<and>
   length (plugins (clearExceptRegion covers svc d s)) = length (plugins s) \<and>
   master (clearExceptRegion covers svc d s) = master s \<and>
   plugins (clearAroundRobot encloses svc wx wy s) = plugins s"
proof -
  obtain pos r where gp: "getPosition (tf s) = (pos, r)"
    by (cases "getPosition (tf s)")
  have around: "plugins (clearAroundRobot encloses svc wx wy s) = plugins s"
    using gp by (cases pos) (auto simp: clearAroundRobot_def)
  show ?thesis
  proof (cases pos)
    case None
    with gp around show ?thesis
      by (simp add: clearExceptRegion_def)
  next
    case (Some xy)
    obtain x y where xy: "xy = (x, y)" by (cases xy)
    obtain ls' r' where loop: "clearExceptRegion_layers covers svc x y d (plugins s) r = (ls', r')"
      by (cases "clearExceptRegion_layers covers svc x y d (plugins s) r")
    have res: "plugins (clearExceptRegion covers svc d s) = ls'"
      "master (clearExceptRegion covers svc d s) = master s"
      using gp Some xy loop by (simp_all add: clearExceptRegion_def)
    from layers_length [OF loop] layers_not_clearable [OF loop] res around
    show ?thesis by simp
  qed
qed

text \<open>
  Claim C1, amended, at the middle layer of the sample stack, which is not allow-listed.
\<close>

theorem non_clearable_layers_unchanged_witness:
  "1 < length (plugins (example_ros pose_always)) \<and>
   \<not> isClearable example_service (getLayerName (plugins (example_ros pose_always) ! 1)) \<and>
   plugins (clearExceptRegion sample_covers example_service 1 (example_ros pose_always)) ! 1 =
     plugins (example_ros pose_always) ! 1 \<and>
   map costmap (plugins (clearExceptRegion sample_covers example_service 1 (example_ros pose_always))) =
     [[1, 0, 3, 0], [1, 2, 3, 4], [1, 0, 3, 0]] \<and>
   plugins (clearAroundRobot sample_encloses example_service 1 1 (example_ros pose_always)) =
     plugins (example_ros pose_always)"
  using non_clearable_layers_unchanged [of 1 "example_ros pose_always" example_service
      sample_covers 1 sample_encloses 1 1]
  by (simp add: ex_defs op_defs upt_rec)

subsection \<open>Pose unavailable at the start\<close>

text \<open>
  Claim C2 as stated fails for the entire clear: with no pose available it resets the cells
  of every layer all the same, and logs no error.
\<close>

theorem clearEntirely_pose_counterexample:
  "pose_src (tf (example_ros pose_never)) (pose_calls (tf (example_ros pose_never))) = None \<and>
   map costmap (plugins (example_ros pose_never)) = [[1, 2, 3, 4], [1, 2, 3, 4], [1, 2, 3, 4]] \<and>
   map costmap (plugins (clearEntirely (example_ros pose_never))) =
     [[0, 0, 0, 0], [0, 0, 0, 0], [0, 0, 0, 0]] \<and>
   plugins (clearEntirely (example_ros pose_never)) \<noteq> plugins (example_ros pose_never) \<and>
   logged (clearEntirely (example_ros pose_never)) = []"
  by (simp add: clearEntirely_def resetLayers_def reset_def example_ros_def example_layer_def
      pose_never_def)

text \<open>
  Claim C2, amended. When the pose is unavailable at the start, the except-region clear and
  the clear around the robot change neither the master grid nor any layer, and log the
  pose error. The entire clear never asks for the pose: it resets every layer, pose or no
  pose, and logs nothing.
\<close>

theorem pose_unavailable_aborts:
  assumes "pose_src (tf s) (pose_calls (tf s)) = None"
  shows
    "plugins (clearExceptRegion covers svc d s) = plugins s \<and>
     master (clearExceptRegion covers svc d s) = master s \<and>
     logged (clearExceptRegion covers svc d s) = logged s @ [pose_error] \<and>
     plugins (clearAroundRobot encloses svc wx wy s) = plugins s \<and>
     master (clearAroundRobot encloses svc wx wy s) = master s \<and>
     logged (clearAroundRobot encloses svc wx wy s) = logged s @ [pose_error] \<and>
     clearEntirely s = s\<lparr>plugins := map reset (plugins s)\<rparr>"
  using assms
  by (simp add: clearExceptRegion_def clearAroundRobot_def getPosition_def getRobotPose_def
      clearEntirely_def resetLayers_def)

text \<open>
  Claim C2, amended, on the sample stack with a pose source that never answers.
\<close>

theorem pose_unavailable_aborts_witness:
  "pose_src (tf (example_ros pose_never)) (pose_calls (tf (example_ros pose_never))) = None \<and>
   plugins (clearExceptRegion sample_covers example_service 1 (example_ros pose_never)) =
     plugins (example_ros pose_never) \<and>
   master (clearAroundRobot sample_encloses example_service 1 1 (example_ros pose_never)) =
     master (example_ros pose_never) \<and>
   logged (clearExceptRegion sample_covers example_service 1 (example_ros pose_never)) = [pose_error] \<and>
   logged (clearAroundRobot sample_encloses example_service 1 1 (example_ros pose_never)) = [pose_error]"
  using pose_unavailable_aborts [of "example_ros pose_never" sample_covers example_service 1
      sample_encloses 1 1]
  by (simp add: example_ros_def pose_never_def)

subsection \<open>Corners of the preserved region\<close>

text \<open>
  Claim C3. Whenever the pose re-check succeeds, the except-region clear of a layer takes
  the four corners \<open>(x - d/2, y - d/2), (x + 0.259, y - d/2), (x + 0.259, y + d/2),
  (x - d/2, y + d/2)\<close> (the two rear corners offset by half the reset distance in both
  axes, the two forward corners by the literal x-offset \<open>0.259\<close> in place of the half
  distance), rotates them by the yaw, converts them to grid cells and hands them to the
  layer's area clear. For the position \<open>(0, 0)\<close> with yaw \<open>0\<close> and reset distance \<open>2\<close>
  the corners it converts and hands on are exactly \<open>(-1,-1), (0.259,-1), (0.259,1),
  (-1,1)\<close>, before rotation and, the yaw being zero, after it.
\<close>

theorem clearLayerExceptRegion_corners:
  assumes "pose_src r (pose_calls r) = Some p"
  shows
    "clearLayerExceptRegion covers l pose_x pose_y reset_distance r =
       (addExtraBounds (origin_x l) (origin_y l)
          (origin_x l + size_in_meters_x l) (origin_y l + size_in_meters_y l)
          (clearArea covers
             (map_corners l
                (map (rotatePoint pose_x pose_y (yaw p))
                   [(pose_x - reset_distance / 2, pose_y - reset_distance / 2),
                    (pose_x + 0.259, pose_y - reset_distance / 2),
                    (pose_x + 0.259, pose_y + reset_distance / 2),
                    (pose_x - reset_distance / 2, pose_y + reset_distance / 2)])) l),
        r\<lparr>pose_calls := Suc (pose_calls r)\<rparr>) \<and>
     (yaw p = 0 \<longrightarrow>
        clearLayerExceptRegion covers l 0 0 2 r =
          (addExtraBounds (origin_x l) (origin_y l)
             (origin_x l + size_in_meters_x l) (origin_y l + size_in_meters_y l)
             (clearArea covers
                (map_corners l [(- 1, - 1), (0.259, - 1), (0.259, 1), (- 1, 1)]) l),
           r\<lparr>pose_calls := Suc (pose_calls r)\<rparr>)) \<and>
     corners 0 0 2 = [(- 1, - 1), (0.259, - 1), (0.259, 1), (- 1, 1)] \<and>
     map (rotatePoint 0 0 0) (corners 0 0 2) = [(- 1, - 1), (0.259, - 1), (0.259, 1), (- 1, 1)]"
  using assms
  by (simp add: clearLayerExceptRegion_def getRobotPose_def corners_def rotatePoint_def Let_def
      clearArea_def)

text \<open>
  Claim C3, on a sample layer with the robot at the origin and yaw zero.
\<close>

theorem clearLayerExceptRegion_corners_witness:
  "pose_src \<lparr>pose_src = pose_at_origin, pose_calls = 0\<rparr>
     (pose_calls \<lparr>pose_src = pose_at_origin, pose_calls = 0\<rparr>) = Some origin_pose \<and>
   yaw origin_pose = 0 \<and>
   clearLayerExceptRegion sample_covers (example_layer ''obstacle_layer'' 1 1) 0 0 2
       \<lparr>pose_src = pose_at_origin, pose_calls = 0\<rparr> =
     (addExtraBounds 0 0 2 2
        (clearArea sample_covers
           (map_corners (example_layer ''obstacle_layer'' 1 1)
              [(- 1, - 1), (0.259, - 1), (0.259, 1), (- 1, 1)])
           (example_layer ''obstacle_layer'' 1 1)),
      \<lparr>pose_src = pose_at_origin, pose_calls = 1\<rparr>) \<and>
   map_corners (example_layer ''obstacle_layer'' 1 1)
       [(- 1, - 1), (0.259, - 1), (0.259, 1), (- 1, 1)] = [(0, 0), (0, 0), (0, 1), (0, 1)] \<and>
   costmap (fst (clearLayerExceptRegion sample_covers (example_layer ''obstacle_layer'' 1 1) 0 0 2
       \<lparr>pose_src = pose_at_origin, pose_calls = 0\<rparr>)) = [1, 0, 3, 0]"
  using clearLayerExceptRegion_corners [of "\<lparr>pose_src = pose_at_origin, pose_calls = 0\<rparr>"
      origin_pose sample_covers "example_layer ''obstacle_layer'' 1 1" 0 0 2]
  by (simp add: pose_at_origin_def origin_pose_def example_layer_def sample_covers_def
      map_corners_def worldToMapEnforceBounds_def worldToMapEnforceBounds1_def clearArea_def
      rotatePoint_def
      addExtraBounds_def upt_rec)

subsection \<open>Zero window\<close>

text \<open>
  Claim C4. A clear-around-robot request whose window has a zero dimension takes the path of
  the entire clear: the resulting state is the one a clear-entire request produces, and no
  error is logged.
\<close>

theorem clearAroundRobotCallback_zero_window:
  "window_size_x = 0 \<or> window_size_y = 0 \<Longrightarrow>
   clearAroundRobotCallback encloses svc window_size_x window_size_y s = clearEntireCallback s \<and>
   logged (clearAroundRobotCallback encloses svc window_size_x window_size_y s) = logged s"
  by (auto simp: clearAroundRobotCallback_def clearEntireCallback_def clearEntirely_def
      resetLayers_def)

text \<open>
  Claim C4, at the window \<open>0 x 3\<close> on the sample stack, without any pose available.
\<close>

theorem clearAroundRobotCallback_zero_window_witness:
  "((0::real) = 0 \<or> (3::real) = 0) \<and>
   clearAroundRobotCallback sample_encloses example_service 0 3 (example_ros pose_never) =
     clearEntireCallback (example_ros pose_never) \<and>
   map costmap (plugins (clearAroundRobotCallback sample_encloses example_service 0 3
     (example_ros pose_never))) = [[0, 0, 0, 0], [0, 0, 0, 0], [0, 0, 0, 0]] \<and>
   logged (clearAroundRobotCallback sample_encloses example_service 0 3 (example_ros pose_never)) = []"
  using clearAroundRobotCallback_zero_window
    [of 0 3 sample_encloses example_service "example_ros pose_never"]
  by (simp add: clearEntireCallback_def clearEntirely_def resetLayers_def reset_def
      example_ros_def example_layer_def)

subsection \<open>Dirty bounds after an except-region clear\<close>

text \<open>
  Claim C5 as stated fails: on a layer of extent \<open>(0, 0, 2, 2)\<close> whose dirty bounds were
  \<open>(-5, -5, 20, 20)\<close> before, the dirty bounds after the except-region clear are still
  \<open>(-5, -5, 20, 20)\<close>, not the extent.
\<close>

theorem clearLayerExceptRegion_dirty_bounds_counterexample:
  "extra_min_x (fst (clearLayerExceptRegion sample_covers
      (example_layer ''obstacle_layer'' (- 5) 20) (1 / 2) (1 / 2) 1 example_tf)) = - 5 \<and>
   extra_max_x (fst (clearLayerExceptRegion sample_covers
      (example_layer ''obstacle_layer'' (- 5) 20) (1 / 2) (1 / 2) 1 example_tf)) = 20 \<and>
   origin_x (fst (clearLayerExceptRegion sample_covers
      (example_layer ''obstacle_layer'' (- 5) 20) (1 / 2) (1 / 2) 1 example_tf)) = 0 \<and>
   size_in_meters_x (fst (clearLayerExceptRegion sample_covers
      (example_layer ''obstacle_layer'' (- 5) 20) (1 / 2) (1 / 2) 1 example_tf)) = 2 \<and>
   extra_min_x (fst (clearLayerExceptRegion sample_covers
      (example_layer ''obstacle_layer'' (- 5) 20) (1 / 2) (1 / 2) 1 example_tf)) \<noteq>
     origin_x (fst (clearLayerExceptRegion sample_covers
      (example_layer ''obstacle_layer'' (- 5) 20) (1 / 2) (1 / 2) 1 example_tf)) \<and>
   costmap (fst (clearLayerExceptRegion sample_covers
      (example_layer ''obstacle_layer'' (- 5) 20) (1 / 2) (1 / 2) 1 example_tf)) = [1, 0, 3, 0]"
  by (simp add: ex_defs op_defs upt_rec)

text \<open>
  Claim C5, amended. After an except-region clear is applied to a layer (the pose re-check
  succeeded), the layer's dirty bounds are the union of the bounds it had and its full
  extent \<open>(origin_x, origin_y, origin_x + width, origin_y + height)\<close>; they equal the extent
  exactly when the bounds it had lay within the extent. The size of the preserved polygon
  plays no part.
\<close>

theorem clearLayerExceptRegion_dirty_bounds:
  assumes "pose_src r (pose_calls r) = Some p"
  shows
    "extra_min_x (fst (clearLayerExceptRegion covers l x y d r)) = min (origin_x l) (extra_min_x l) \<and>
     extra_min_y (fst (clearLayerExceptRegion covers l x y d r)) = min (origin_y l) (extra_min_y l) \<and>
     extra_max_x (fst (clearLayerExceptRegion covers l x y d r)) =
       max (origin_x l + size_in_meters_x l) (extra_max_x l) \<and>
     extra_max_y (fst (clearLayerExceptRegion covers l x y d r)) =
       max (origin_y l + size_in_meters_y l) (extra_max_y l) \<and>
     (origin_x l \<le> extra_min_x l \<and> origin_y l \<le> extra_min_y l \<and>
      extra_max_x l \<le> origin_x l + size_in_meters_x l \<and>
      extra_max_y l \<le> origin_y l + size_in_meters_y l \<longrightarrow>
      extra_min_x (fst (clearLayerExceptRegion covers l x y d r)) = origin_x l \<and>
      extra_min_y (fst (clearLayerExceptRegion covers l x y d r)) = origin_y l \<and>
      extra_max_x (fst (clearLayerExceptRegion covers l x y d r)) = origin_x l + size_in_meters_x l \<and>
      extra_max_y (fst (clearLayerExceptRegion covers l x y d r)) = origin_y l + size_in_meters_y l)"
  using assms
  by (simp add: clearLayerExceptRegion_def getRobotPose_def clearArea_def addExtraBounds_def Let_def)

text \<open>
  Claim C5, amended, at a sample layer whose dirty bounds were the point \<open>(1, 1)\<close>.
\<close>

theorem clearLayerExceptRegion_dirty_bounds_witness:
  "pose_src example_tf (pose_calls example_tf) = Some example_pose \<and>
   origin_x (example_layer ''obstacle_layer'' 1 1) \<le> extra_min_x (example_layer ''obstacle_layer'' 1 1) \<and>
   origin_y (example_layer ''obstacle_layer'' 1 1) \<le> extra_min_y (example_layer ''obstacle_layer'' 1 1) \<and>
   extra_max_x (example_layer ''obstacle_layer'' 1 1) \<le> 0 + 2 \<and>
   extra_max_y (example_layer ''obstacle_layer'' 1 1) \<le> 0 + 2 \<and>
   extra_min_x (fst (clearLayerExceptRegion sample_covers
      (example_layer ''obstacle_layer'' 1 1) (1 / 2) (1 / 2) 1 example_tf)) = 0 \<and>
   extra_min_y (fst (clearLayerExceptRegion sample_covers
      (example_layer ''obstacle_layer'' 1 1) (1 / 2) (1 / 2) 1 example_tf)) = 0 \<and>
   extra_max_x (fst (clearLayerExceptRegion sample_covers
      (example_layer ''obstacle_layer'' 1 1) (1 / 2) (1 / 2) 1 example_tf)) = 2 \<and>
   extra_max_y (fst (clearLayerExceptRegion sample_covers
      (example_layer ''obstacle_layer'' 1 1) (1 / 2) (1 / 2) 1 example_tf)) = 2"
  using clearLayerExceptRegion_dirty_bounds [of example_tf example_pose sample_covers
      "example_layer ''obstacle_layer'' 1 1" "1 / 2" "1 / 2" 1]
  by (simp add: example_tf_def pose_always_def example_layer_def)

subsection \<open>Layer selection\<close>

text \<open>
  Claim C6. With a pose available at the start, the except-region clear does what the spec's
  layer filter followed by an in-order visit does: the allow-listed layers of the result
  are the visited allow-listed layers of the stack, in stack order and with the same pose
  queries; the other layers are as they were; the names, and with them the stack order,
  are kept; nothing is logged.
\<close>

theorem clearExceptRegion_refines_LayerFilter:
  assumes "pose_src (tf s) (pose_calls (tf s)) = Some p"
  shows
    "visit_in_order covers (position_x p) (position_y p) d
        (LayerFilter (clearable_layers svc) (plugins s))
        ((tf s)\<lparr>pose_calls := Suc (pose_calls (tf s))\<rparr>) =
       (LayerFilter (clearable_layers svc) (plugins (clearExceptRegion covers svc d s)),
        tf (clearExceptRegion covers svc d s)) \<and>
     filter (\<lambda>l. trailing_segment (name l) \<notin> set (clearable_layers svc))
        (plugins (clearExceptRegion covers svc d s)) =
       filter (\<lambda>l. trailing_segment (name l) \<notin> set (clearable_layers svc)) (plugins s) \<and>
     map name (plugins (clearExceptRegion covers svc d s)) = map name (plugins s) \<and>
     logged (clearExceptRegion covers svc d s) = logged s \<and>
     master (clearExceptRegion covers svc d s) = master s"
proof -
  let ?r = "(tf s)\<lparr>pose_calls := Suc (pose_calls (tf s))\<rparr>"
  have gp: "getPosition (tf s) = (Some (position_x p, position_y p), ?r)"
    using assms by (simp add: getPosition_def getRobotPose_def)
  obtain ls' r' where loop:
    "clearExceptRegion_layers covers svc (position_x p) (position_y p) d (plugins s) ?r = (ls', r')"
    by (cases "clearExceptRegion_layers covers svc (position_x p) (position_y p) d (plugins s) ?r")
  have res: "clearExceptRegion covers svc d s = s\<lparr>plugins := ls', tf := r'\<rparr>"
    using gp loop by (simp add: clearExceptRegion_def)
  from layers_refine [OF loop] layers_names [OF loop] res show ?thesis
    by simp
qed

text \<open>
  Claim C6, on the sample stack: the first and the third layer are selected and cleared.
\<close>

theorem clearExceptRegion_refines_LayerFilter_witness:
  "pose_src (tf (example_ros pose_always)) (pose_calls (tf (example_ros pose_always))) =
     Some example_pose \<and>
   map name (LayerFilter (clearable_layers example_service) (plugins (example_ros pose_always))) =
     [''local_costmap/obstacle_layer'', ''voxel_layer''] \<and>
   map costmap (fst (visit_in_order sample_covers (1 / 2) (1 / 2) 1
      (LayerFilter (clearable_layers example_service) (plugins (example_ros pose_always)))
      \<lparr>pose_src = pose_always, pose_calls = 1\<rparr>)) = [[1, 0, 3, 0], [1, 0, 3, 0]] \<and>
   map costmap (LayerFilter (clearable_layers example_service)
      (plugins (clearExceptRegion sample_covers example_service 1 (example_ros pose_always)))) =
     [[1, 0, 3, 0], [1, 0, 3, 0]] \<and>
   pose_calls (tf (clearExceptRegion sample_covers example_service 1 (example_ros pose_always))) = 3 \<and>
   logged (clearExceptRegion sample_covers example_service 1 (example_ros pose_always)) = []"
  using clearExceptRegion_refines_LayerFilter [of "example_ros pose_always" example_pose
      sample_covers 1 example_service]
  by (simp add: ex_defs op_defs LayerFilter_def trailing_segment_def upt_rec)

subsection \<open>The rectangle around the robot\<close>

lemma setConvexPolygonCost_cell:
  assumes "mx < size_x g" and "my * size_x g + mx < length (costmap g)"
  shows "costmap (setConvexPolygonCost encloses poly v g) ! (my * size_x g + mx) =
           (if encloses g poly mx my then v else costmap g ! (my * size_x g + mx))"
  using assms by (simp add: setConvexPolygonCost_def)

text \<open>
  Claim C7. With a pose available and both window dimensions nonzero, the clear around the
  robot hands the master grid's polygon cost assignment the rectangle
  \<open>[x - wx/2, x + wx/2] x [y - wy/2, y + wy/2]\<close> around the position, whatever the yaw, and
  the default value the service read from the master grid when it was built; every cell
  of the master grid that the rectangle encloses then holds that value. No layer and no
  log entry changes.
\<close>

theorem clearAroundRobot_axis_aligned_rectangle:
  assumes "window_size_x \<noteq> 0" and "window_size_y \<noteq> 0"
    and "pose_src (tf s) (pose_calls (tf s)) = Some p"
  shows
    "master (clearAroundRobotCallback encloses (ClearCostmapService cl s0) window_size_x window_size_y s) =
       setConvexPolygonCost encloses
         [(position_x p - window_size_x / 2, position_y p - window_size_y / 2),
          (position_x p + window_size_x / 2, position_y p - window_size_y / 2),
          (position_x p + window_size_x / 2, position_y p + window_size_y / 2),
          (position_x p - window_size_x / 2, position_y p + window_size_y / 2)]
         (default_value (master s0)) (master s) \<and>
     (mx < size_x (master s) \<and> my * size_x (master s) + mx < length (costmap (master s)) \<and>
      encloses (master s)
         [(position_x p - window_size_x / 2, position_y p - window_size_y / 2),
          (position_x p + window_size_x / 2, position_y p - window_size_y / 2),
          (position_x p + window_size_x / 2, position_y p + window_size_y / 2),
          (position_x p - window_size_x / 2, position_y p + window_size_y / 2)] mx my \<longrightarrow>
      costmap (master (clearAroundRobotCallback encloses (ClearCostmapService cl s0)
          window_size_x window_size_y s)) ! (my * size_x (master s) + mx) =
        default_value (master s0)) \<and>
     plugins (clearAroundRobotCallback encloses (ClearCostmapService cl s0) window_size_x window_size_y s) =
       plugins s \<and>
     logged (clearAroundRobotCallback encloses (ClearCostmapService cl s0) window_size_x window_size_y s) =
       logged s"
proof -
  let ?poly = "[(position_x p - window_size_x / 2, position_y p - window_size_y / 2),
          (position_x p + window_size_x / 2, position_y p - window_size_y / 2),
          (position_x p + window_size_x / 2, position_y p + window_size_y / 2),
          (position_x p - window_size_x / 2, position_y p + window_size_y / 2)]"
  let ?r = "(tf s)\<lparr>pose_calls := Suc (pose_calls (tf s))\<rparr>"
  have gp: "getPosition (tf s) = (Some (position_x p, position_y p), ?r)"
    using assms(3) by (simp add: getPosition_def getRobotPose_def)
  have res: "clearAroundRobotCallback encloses (ClearCostmapService cl s0) window_size_x window_size_y s =
      s\<lparr>master := setConvexPolygonCost encloses ?poly (default_value (master s0)) (master s),
        tf := ?r\<rparr>"
    using assms(1,2) gp
    by (simp add: clearAroundRobotCallback_def clearAroundRobot_def clear_poly_def
        ClearCostmapService_def)
  show ?thesis
    using setConvexPolygonCost_cell [of mx "master s" my encloses ?poly "default_value (master s0)"]
    by (simp add: res)
qed

text \<open>
  Claim C7, with a one-meter window on the sample grid: the one enclosed cell is reset.
\<close>

theorem clearAroundRobot_axis_aligned_rectangle_witness:
  "(1::real) \<noteq> 0 \<and>
   pose_src (tf (example_ros pose_always)) (pose_calls (tf (example_ros pose_always))) =
     Some example_pose \<and>
   0 < size_x (master (example_ros pose_always)) \<and>
   0 * size_x (master (example_ros pose_always)) + 0 <
     length (costmap (master (example_ros pose_always))) \<and>
   sample_encloses (master (example_ros pose_always)) [(0, 0), (1, 0), (1, 1), (0, 1)] 0 0 \<and>
   costmap (master (clearAroundRobotCallback sample_encloses
      (ClearCostmapService [''obstacle_layer''] (example_ros pose_always)) 1 1
      (example_ros pose_always))) ! 0 = 0 \<and>
   costmap (master (clearAroundRobotCallback sample_encloses
      (ClearCostmapService [''obstacle_layer''] (example_ros pose_always)) 1 1
      (example_ros pose_always))) = [0, 2, 3, 4]"
  using clearAroundRobot_axis_aligned_rectangle [of 1 1 "example_ros pose_always" example_pose
      sample_encloses "[''obstacle_layer'']" "example_ros pose_always" 0 0]
  by (simp add: ex_defs setConvexPolygonCost_def upt_rec)

subsection \<open>Pose lost during the iteration\<close>

text \<open>
  Claim C8. When the pose re-check fails at an allow-listed layer, that layer is left as it
  was, the layers before it keep what the loop did to them, the loop goes on with the
  layers after it, and nothing is logged.
\<close>

theorem clearExceptRegion_skips_layer_on_pose_loss:
  assumes "pose_src (tf s) (pose_calls (tf s)) = Some p"
    and "plugins s = pre @ l # post"
    and "isClearable svc (getLayerName l)"
    and "clearExceptRegion_layers covers svc (position_x p) (position_y p) d pre
           ((tf s)\<lparr>pose_calls := Suc (pose_calls (tf s))\<rparr>) = (pre', r1)"
    and "pose_src r1 (pose_calls r1) = None"
  shows
    "plugins (clearExceptRegion covers svc d s) =
       pre' @ l # fst (clearExceptRegion_layers covers svc (position_x p) (position_y p) d post
                         (r1\<lparr>pose_calls := Suc (pose_calls r1)\<rparr>)) \<and>
     tf (clearExceptRegion covers svc d s) =
       snd (clearExceptRegion_layers covers svc (position_x p) (position_y p) d post
              (r1\<lparr>pose_calls := Suc (pose_calls r1)\<rparr>)) \<and>
     logged (clearExceptRegion covers svc d s) = logged s"
proof -
  let ?r = "(tf s)\<lparr>pose_calls := Suc (pose_calls (tf s))\<rparr>"
  let ?r2 = "r1\<lparr>pose_calls := Suc (pose_calls r1)\<rparr>"
  have gp: "getPosition (tf s) = (Some (position_x p, position_y p), ?r)"
    using assms(1) by (simp add: getPosition_def getRobotPose_def)
  obtain post' r3 where post:
    "clearExceptRegion_layers covers svc (position_x p) (position_y p) d post ?r2 = (post', r3)"
    by (cases "clearExceptRegion_layers covers svc (position_x p) (position_y p) d post ?r2")
  have one: "clearExceptRegion_layers covers svc (position_x p) (position_y p) d (l # post) r1 =
      (l # post', r3)"
    using assms(3) clearLayerExceptRegion_None [OF assms(5)] post by simp
  have "clearExceptRegion_layers covers svc (position_x p) (position_y p) d (pre @ l # post) ?r =
      (pre' @ l # post', r3)"
    using assms(4) one by (simp add: layers_append)
  with gp assms(2) post show ?thesis
    by (simp add: clearExceptRegion_def)
qed

text \<open>
  Claim C8, on the sample stack with the pose lost at the first layer's re-check: the first
  layer is skipped, the third is cleared.
\<close>

theorem clearExceptRegion_skips_layer_on_pose_loss_witness:
  "pose_src (tf (example_ros (pose_lost_at 1))) (pose_calls (tf (example_ros (pose_lost_at 1)))) =
     Some example_pose \<and>
   plugins (example_ros (pose_lost_at 1)) =
     [] @ example_layer ''local_costmap/obstacle_layer'' 1 1 #
       [example_layer ''local_costmap/static_layer'' 1 1, example_layer ''voxel_layer'' 1 1] \<and>
   isClearable example_service (getLayerName (example_layer ''local_costmap/obstacle_layer'' 1 1)) \<and>
   pose_src \<lparr>pose_src = pose_lost_at 1, pose_calls = 1\<rparr>
     (pose_calls \<lparr>pose_src = pose_lost_at 1, pose_calls = 1\<rparr>) = None \<and>
   plugins (clearExceptRegion sample_covers example_service 1 (example_ros (pose_lost_at 1))) ! 0 =
     example_layer ''local_costmap/obstacle_layer'' 1 1 \<and>
   map costmap (plugins (clearExceptRegion sample_covers example_service 1
      (example_ros (pose_lost_at 1)))) = [[1, 2, 3, 4], [1, 2, 3, 4], [1, 0, 3, 0]] \<and>
   logged (clearExceptRegion sample_covers example_service 1 (example_ros (pose_lost_at 1))) = []"
  using clearExceptRegion_skips_layer_on_pose_loss [of "example_ros (pose_lost_at 1)" example_pose
      "[]" "example_layer ''local_costmap/obstacle_layer'' 1 1"
      "[example_layer ''local_costmap/static_layer'' 1 1, example_layer ''voxel_layer'' 1 1]"
      example_service sample_covers 1 "[]" "\<lparr>pose_src = pose_lost_at 1, pose_calls = 1\<rparr>"]
  by (simp add: ex_defs op_defs upt_rec)

subsection \<open>Clamped conversion\<close>

lemma worldToMapEnforceBounds1_range:
  assumes "0 < cells" "0 < res" "size_m \<le> real cells * res"
  shows "0 \<le> worldToMapEnforceBounds1 origin res size_m cells w \<and>
         worldToMapEnforceBounds1 origin res size_m cells w < int cells"
proof (cases "w < origin \<or> origin + size_m \<le> w")
  case True
  with assms(1) show ?thesis
    by (auto simp: worldToMapEnforceBounds1_def)
next
  case False
  then have lo: "origin \<le> w" and hi: "w < origin + size_m" by auto
  from lo assms(2) have "0 \<le> (w - origin) / res" by simp
  then have a: "0 \<le> \<lfloor>(w - origin) / res\<rfloor>" by simp
  from hi assms(3) have "w - origin < real cells * res" by linarith
  with assms(2) have "(w - origin) / res < real cells"
    by (simp add: pos_divide_less_eq)
  then have b: "\<lfloor>(w - origin) / res\<rfloor> < int cells"
    by (simp add: floor_less_iff)
  from False a b show ?thesis
    by (simp add: worldToMapEnforceBounds1_def)
qed

text \<open>
  Claim C9. On a non-empty grid of positive resolution whose metric size does not exceed its
  cell count times the resolution, the clamped world-to-grid conversion returns, for every
  world coordinate, an index in \<open>[0, size_x) x [0, size_y)\<close>; so does every corner that the
  except-region path hands to the area clear.
\<close>

theorem worldToMapEnforceBounds_in_grid:
  assumes "0 < size_x g" and "0 < size_y g" and "0 < resolution g"
    and "size_in_meters_x g \<le> real (size_x g) * resolution g"
    and "size_in_meters_y g \<le> real (size_y g) * resolution g"
  shows "0 \<le> fst (worldToMapEnforceBounds g wx wy) \<and>
         fst (worldToMapEnforceBounds g wx wy) < int (size_x g) \<and>
         0 \<le> snd (worldToMapEnforceBounds g wx wy) \<and>
         snd (worldToMapEnforceBounds g wx wy) < int (size_y g) \<and>
         list_all (\<lambda>c. 0 \<le> fst c \<and> fst c < real (size_x g) \<and> 0 \<le> snd c \<and> snd c < real (size_y g))
           (map_corners g rotated_corners)"
proof -
  have range: "0 \<le> fst (worldToMapEnforceBounds g a b) \<and>
      fst (worldToMapEnforceBounds g a b) < int (size_x g) \<and>
      0 \<le> snd (worldToMapEnforceBounds g a b) \<and>
      snd (worldToMapEnforceBounds g a b) < int (size_y g)" for a b
    using worldToMapEnforceBounds1_range [OF assms(1) assms(3) assms(4)]
      worldToMapEnforceBounds1_range [OF assms(2) assms(3) assms(5)]
    by (simp add: worldToMapEnforceBounds_def)
  have "0 \<le> fst c \<and> fst c < real (size_x g) \<and> 0 \<le> snd c \<and> snd c < real (size_y g)"
    if "c \<in> set (map_corners g rotated_corners)" for c
  proof -
    from that obtain q where c: "c = (case worldToMapEnforceBounds g (fst q) (snd q) of
        (map_x, map_y) \<Rightarrow> (real_of_int map_x, real_of_int map_y))"
      by (auto simp: map_corners_def)
    from range [of "fst q" "snd q"] show ?thesis
      by (simp add: c split_beta)
  qed
  with range [of wx wy] show ?thesis
    by (simp add: list_all_iff)
qed

text \<open>
  Claim C9, at a point a million meters outside the sample grid.
\<close>

theorem worldToMapEnforceBounds_in_grid_witness:
  "0 < size_x example_grid \<and> 0 < size_y example_grid \<and> 0 < resolution example_grid \<and>
   size_in_meters_x example_grid \<le> real (size_x example_grid) * resolution example_grid \<and>
   size_in_meters_y example_grid \<le> real (size_y example_grid) * resolution example_grid \<and>
   worldToMapEnforceBounds example_grid 1000000 (- 1000000) = (1, 0) \<and>
   0 \<le> fst (worldToMapEnforceBounds example_grid 1000000 (- 1000000)) \<and>
   fst (worldToMapEnforceBounds example_grid 1000000 (- 1000000)) < int (size_x example_grid) \<and>
   0 \<le> snd (worldToMapEnforceBounds example_grid 1000000 (- 1000000)) \<and>
   snd (worldToMapEnforceBounds example_grid 1000000 (- 1000000)) < int (size_y example_grid) \<and>
   map_corners example_grid [(- 7, 5 / 2), (3 / 2, 1 / 2)] = [(0, 1), (1, 0)]"
  using worldToMapEnforceBounds_in_grid [of example_grid 1000000 "- 1000000"
      "[(- 7, 5 / 2), (3 / 2, 1 / 2)]"]
  by (simp add: example_grid_def map_corners_def worldToMapEnforceBounds_def
      worldToMapEnforceBounds1_def)

subsection \<open>Trailing name segment\<close>

text \<open>
  Claim C10. The name used for allow-list matching is what follows the last \<open>/\<close> of the
  layer's name when the name contains a \<open>/\<close> (the name is some prefix, a \<open>/\<close>, and the
  result, which itself has no \<open>/\<close>), and the whole name when it contains none.
\<close>

theorem getLayerName_after_last_slash:
  "(CHR ''/'' \<in> set (name l) \<longrightarrow>
      (\<exists>pre. name l = pre @ CHR ''/'' # getLayerName l) \<and> CHR ''/'' \<notin> set (getLayerName l)) \<and>
   (CHR ''/'' \<notin> set (name l) \<longrightarrow> getLayerName l = name l)"
proof (cases "rfind CHR ''/'' (name l)")
  case None
  then have "CHR ''/'' \<notin> set (name l)"
    by (simp add: rfind_None)
  with None show ?thesis
    by (simp add: getLayerName_def)
next
  case (Some slash)
  note sp = rfind_split [OF Some]
  from sp(1) have "\<exists>pre. name l = pre @ CHR ''/'' # drop (Suc slash) (name l)" ..
  moreover have "CHR ''/'' \<in> set (name l)"
    using Some by (metis rfind_None option.distinct(1))
  ultimately show ?thesis using Some sp(2)
    by (simp add: getLayerName_def)
qed

text \<open>
  Claim C10, at a namespaced name and at a plain one.
\<close>

theorem getLayerName_after_last_slash_witness:
  "CHR ''/'' \<in> set (name (example_layer ''local_costmap/obstacle_layer'' 1 1)) \<and>
   getLayerName (example_layer ''local_costmap/obstacle_layer'' 1 1) = ''obstacle_layer'' \<and>
   CHR ''/'' \<notin> set (name (example_layer ''voxel_layer'' 1 1)) \<and>
   getLayerName (example_layer ''voxel_layer'' 1 1) = ''voxel_layer''"
  using getLayerName_after_last_slash [of "example_layer ''local_costmap/obstacle_layer'' 1 1"]
    getLayerName_after_last_slash [of "example_layer ''voxel_layer'' 1 1"]
  by (simp add: example_layer_def getLayerName_def)

end
